theory Spec2Isabelle
  imports Main "HOL-Library.Word"
begin

section \<open>The media uploader backend (server.js)\<close>

text \<open>
  The service is three route handlers behind a CORS gate. Every handler turns a request
  into calls to the Cloudinary SDK and reshapes the answer into a JSON response. The SDK
  is not part of the repository, so the store is a parameter of the model: a record of the
  four SDK entry points the source calls, each a state-passing function over an arbitrary
  store state that either rejects with an error or resolves with a value. An awaited
  rejection is a thrown exception, caught by the handler's \<open>catch\<close> block.

  Each handler returns three things: the HTTP response, the SDK calls it issued in the
  order it issued them, and the store state after the last call. That this list is the
  list of calls the store receives is shown below with a store that keeps a record of
  them (\<open>upload_handler_log\<close>, \<open>delete_handler_log\<close>, \<open>files_handler_log\<close>).

  A JavaScript number that holds a byte count, a pixel size or a millisecond timestamp is
  modelled by its integer value. Where the source adds such numbers, the model adds them
  as doubles do: the exact sum, rounded to 53 significant bits.
\<close>

subsection \<open>Values exchanged with the store\<close>

text \<open>An error object made with \<open>new Error(message)\<close>.\<close>

datatype error = Error (message: string)

text \<open>
  What a call of the SDK rejects with, as far as a handler can look at it. \<open>Error_object m\<close>
  is an error whose own \<open>message\<close> property is \<open>m\<close>, as the upload API and a network
  fault give it. \<open>Api_error m c\<close> is the rejection of the Admin API,
  \<open>{ error: { message: m, http_code: c } }\<close>: the store's message is nested one level
  down and the rejected value has no \<open>message\<close> property of its own.
\<close>

datatype rejection = Error_object string | Api_error string nat

text \<open>\<open>err.message\<close>, \<open>None\<close> for \<open>undefined\<close>.\<close>

definition message_of :: "rejection \<Rightarrow> string option" where
  "message_of err = (case err of Error_object m \<Rightarrow> Some m | Api_error m c \<Rightarrow> None)"

text \<open>The message the store gave, wherever the rejected value keeps it.\<close>

definition store_message :: "rejection \<Rightarrow> string" where
  "store_message err = (case err of Error_object m \<Rightarrow> m | Api_error m c \<Rightarrow> m)"

text \<open>A resource descriptor as the store reports it (upload result, lookup, listing).\<close>

record resource =
  secure_url :: string
  public_id :: string
  format :: string
  resource_type :: string
  bytes :: int
  mimetype :: "string option"
  width :: "int option"
  height :: "int option"
  display_name :: "string option"
  created_at :: string

text \<open>The options object of \<open>cloudinary.uploader.upload\<close> (lines 68-74).\<close>

record upload_options =
  resource_type_u :: string
  folder :: string
  use_filename :: bool
  unique_filename :: bool
  public_id_u :: string

text \<open>
  The value of \<open>max_results\<close>: the number literal of the default, or the raw string
  of the query parameter.
\<close>

datatype qvalue = QNum nat | QStr string

text \<open>The options object of \<open>cloudinary.api.resources\<close> (lines 115-128).\<close>

record list_options =
  type_l :: string
  resource_type_l :: string
  prefix_l :: string
  max_results :: qvalue

datatype call =
    Uploader_upload string upload_options
  | Api_resource string
  | Uploader_destroy string string
  | Api_resources list_options

record 's cloudinary =
  uploader_upload :: "string \<Rightarrow> upload_options \<Rightarrow> 's \<Rightarrow> (rejection + resource) \<times> 's"
  api_resource :: "string \<Rightarrow> 's \<Rightarrow> (rejection + resource) \<times> 's"
  uploader_destroy :: "string \<Rightarrow> string \<Rightarrow> 's \<Rightarrow> (rejection + unit) \<times> 's"
  api_resources :: "list_options \<Rightarrow> 's \<Rightarrow> (rejection + resource list) \<times> 's"

subsection \<open>Requests and responses\<close>

text \<open>An entry of the \<open>files\<close> array built at lines 132-143.\<close>

record descriptor =
  url :: string
  public_id_f :: string
  format_f :: string
  resource_type_f :: string
  size_f :: int
  mimetype_f :: "string option"
  width_f :: "int option"
  height_f :: "int option"
  originalName :: "string option"
  created_at_f :: string

datatype jvalue = Str string | Num int | Null | Files "descriptor list"

text \<open>A JSON object body is the list of its fields, in the order the source writes them.\<close>

record response =
  status :: nat
  body :: "(string \<times> jvalue) list"

text \<open>\<open>res.json(b)\<close> answers with status 200; \<open>res.status(c).json(b)\<close> with \<open>c\<close>.\<close>

definition json :: "(string \<times> jvalue) list \<Rightarrow> response" where
  "json b = \<lparr>status = 200, body = b\<rparr>"

definition status_json :: "nat \<Rightarrow> (string \<times> jvalue) list \<Rightarrow> response" where
  "status_json c b = \<lparr>status = c, body = b\<rparr>"

text \<open>
  An object literal some of whose values may be \<open>undefined\<close>: the JSON serialisation
  leaves those properties out.
\<close>

definition obj :: "(string \<times> jvalue option) list \<Rightarrow> (string \<times> jvalue) list" where
  "obj kvs = concat (map (\<lambda>kv. case snd kv of None \<Rightarrow> [] | Some v \<Rightarrow> [(fst kv, v)]) kvs)"

text \<open>\<open>req.file\<close> as multer's memory storage leaves it: absent, or bytes and a MIME type.\<close>

record uploaded_file =
  buffer :: "8 word list"
  mimetype_u :: string

record upload_request =
  req_file :: "uploaded_file option"

record delete_request =
  cloudinaryId :: string

record files_request =
  query_max_results :: "string option"

text \<open>
  What the upload handler reads from its environment: \<open>Date.now()\<close> and the string
  \<open>Math.random().toString(36)\<close>.
\<close>

record env =
  now :: nat
  random36 :: string

subsection \<open>String helpers\<close>

definition digit_char :: "nat \<Rightarrow> char" where
  "digit_char d = ''0123456789'' ! d"

text \<open>
  The decimal rendering of a non-negative integer, as a template literal prints it
  (millisecond timestamps are far below \<open>10 ^ 21\<close>, where the exponent notation begins).
\<close>

function show_nat :: "nat \<Rightarrow> string" where
  "show_nat n = (if n < 10 then [digit_char n] else show_nat (n div 10) @ [digit_char (n mod 10)])"
  by pat_completeness auto
termination
  by (relation "measure id") auto

declare show_nat.simps [simp del]

text \<open>\<open>s.substring(a, b)\<close>: the arguments are swapped when out of order and clamped to the length.\<close>

definition substring :: "nat \<Rightarrow> nat \<Rightarrow> string \<Rightarrow> string" where
  "substring a b s = (let i = min a b; j = max a b in take (j - i) (drop i s))"

definition b64chars :: string where
  "b64chars = ''ABCDEFGHIJKLMNOPQRSTUVWXYZabcdefghijklmnopqrstuvwxyz0123456789+/''"

definition b64 :: "nat \<Rightarrow> char" where
  "b64 i = b64chars ! (i mod 64)"

text \<open>\<open>Buffer.from(bytes).toString("base64")\<close>: three bytes give four characters, padded with \<open>=\<close>.\<close>

fun base64 :: "8 word list \<Rightarrow> string" where
  "base64 [] = []"
| "base64 [a] =
     [b64 (unat a div 4), b64 (unat a mod 4 * 16), CHR ''='', CHR ''='']"
| "base64 [a, b] =
     [b64 (unat a div 4), b64 (unat a mod 4 * 16 + unat b div 16),
      b64 (unat b mod 16 * 4), CHR ''='']"
| "base64 (a # b # c # rest) =
     [b64 (unat a div 4), b64 (unat a mod 4 * 16 + unat b div 16),
      b64 (unat b mod 16 * 4 + unat c div 64), b64 (unat c mod 64)] @ base64 rest"

subsection \<open>CORS gate (lines 19-44)\<close>

definition allowedOrigins :: "string list" where
  "allowedOrigins =
     [''https://jmandmj.vercel.app'',
      ''https://media-uploader-backend.vercel.app'',
      ''http://localhost:3001'',
      ''http://localhost:5173'']"

text \<open>
  The \<open>origin\<close> callback. Its argument is the Origin header, \<open>None\<close> when the request has
  none. \<open>!origin\<close> holds for a missing header and for the empty string. The result is what
  the callback is called with: an error, or \<open>true\<close>.
\<close>

definition cors_origin :: "string option \<Rightarrow> error + bool" where
  "cors_origin origin =
     (case origin of
        None \<Rightarrow> Inr True
      | Some orig \<Rightarrow>
          if orig = [] then Inr True
          else if orig \<in> set allowedOrigins then Inr True
          else Inl (Error (''Not allowed by CORS: '' @ orig)))"

subsection \<open>Upload handler (lines 59-85)\<close>

definition generated_id :: "env \<Rightarrow> string" where
  "generated_id e = show_nat (now e) @ ''-'' @ substring 2 8 (random36 e)"

text \<open>Lines 65-66: the payload as a data URI.\<close>

definition data_uri :: "uploaded_file \<Rightarrow> string" where
  "data_uri f = ''data:'' @ mimetype_u f @ '';base64,'' @ base64 (buffer f)"

definition upload_opts :: "env \<Rightarrow> upload_options" where
  "upload_opts e =
     \<lparr>resource_type_u = ''auto'', folder = ''wedding-memories'',
      use_filename = True, unique_filename = False,
      public_id_u = generated_id e\<rparr>"

definition upload_handler ::
  "'s cloudinary \<Rightarrow> env \<Rightarrow> upload_request \<Rightarrow> 's \<Rightarrow> response \<times> call list \<times> 's" where
  "upload_handler cl e req st =
     (case req_file req of
        None \<Rightarrow> (status_json 400 [(''error'', Str ''No file uploaded'')], [], st)
      | Some f \<Rightarrow>
          let dataURI = data_uri f;
              opts = upload_opts e
          in (case uploader_upload cl dataURI opts st of
                (Inl err, st') \<Rightarrow>
                  (status_json 500 (obj [(''error'', map_option Str (message_of err))]),
                   [Uploader_upload dataURI opts], st')
              | (Inr result, st') \<Rightarrow>
                  (json [(''message'', Str ''Upload successful''),
                         (''url'', Str (secure_url result)),
                         (''public_id'', Str (public_id result))],
                   [Uploader_upload dataURI opts], st')))"

subsection \<open>Delete handler (lines 88-107)\<close>

definition delete_failed :: "rejection \<Rightarrow> response" where
  "delete_failed err =
     status_json 500 (obj [(''error'', Some (Str ''Failed to delete file from Cloudinary'')),
                           (''details'', map_option Str (message_of err))])"

definition delete_handler ::
  "'s cloudinary \<Rightarrow> delete_request \<Rightarrow> 's \<Rightarrow> response \<times> call list \<times> 's" where
  "delete_handler cl req st =
     (let cid = cloudinaryId req
      in (case api_resource cl cid st of
            (Inl err, st1) \<Rightarrow> (delete_failed err, [Api_resource cid], st1)
          | (Inr res, st1) \<Rightarrow>
              let resourceType = resource_type res
              in (case uploader_destroy cl cid resourceType st1 of
                    (Inl err, st2) \<Rightarrow>
                      (delete_failed err,
                       [Api_resource cid, Uploader_destroy cid resourceType], st2)
                  | (Inr _, st2) \<Rightarrow>
                      (json [(''message'', Str ''File deleted successfully from Cloudinary'')],
                       [Api_resource cid, Uploader_destroy cid resourceType], st2))))"













subsection \<open>Listing handler (lines 110-157)\<close>

text \<open>\<open>const { max_results = 10 } = req.query\<close>: the default applies when the parameter is absent.\<close>

definition max_results_of :: "files_request \<Rightarrow> qvalue" where
  "max_results_of req = (case query_max_results req of None \<Rightarrow> QNum 10 | Some s \<Rightarrow> QStr s)"

definition list_query :: "string \<Rightarrow> qvalue \<Rightarrow> list_options" where
  "list_query kind m =
     \<lparr>type_l = ''upload'', resource_type_l = kind, prefix_l = ''wedding-memories/'',
      max_results = m\<rparr>"

text \<open>The projection of lines 132-143.\<close>

definition to_file :: "resource \<Rightarrow> descriptor" where
  "to_file r =
     \<lparr>url = secure_url r, public_id_f = public_id r, format_f = format r,
      resource_type_f = resource_type r, size_f = bytes r, mimetype_f = mimetype r,
      width_f = width r, height_f = height r, originalName = display_name r,
      created_at_f = created_at r\<rparr>"

text \<open>
  The sum of line 146 is a sum of doubles. A double with an integer value is that integer
  if it is finite; the sum of two of them is their exact sum rounded to the nearest number
  with 53 significant bits, the even one of two equally near, and an infinity from
  \<open>2 ^ 1024\<close> on.
\<close>

datatype number = Finite int | PosInfinity | NegInfinity

function bit_length :: "nat \<Rightarrow> nat" where
  "bit_length n = (if n = 0 then 0 else Suc (bit_length (n div 2)))"
  by pat_completeness auto
termination
  by (relation "measure id") auto

declare bit_length.simps [simp del]

text \<open>\<open>m\<close> rounded to a multiple of \<open>u\<close>, a tie going to the even multiple.\<close>

definition nearest_even :: "nat \<Rightarrow> nat \<Rightarrow> nat" where
  "nearest_even u m =
     (let q = m div u; r = m mod u
      in if 2 * r < u \<or> (2 * r = u \<and> even q) then q * u else (q + 1) * u)"

definition to_double :: "int \<Rightarrow> number" where
  "to_double n =
     (let m = nat \<bar>n\<bar>;
          r = int (nearest_even (2 ^ (bit_length m - 53)) m)
      in if 2 ^ 1024 \<le> r then (if n < 0 then NegInfinity else PosInfinity)
         else Finite (if n < 0 then - r else r))"

text \<open>\<open>sum + f.size\<close>, the right operand finite.\<close>

fun js_add :: "number \<Rightarrow> int \<Rightarrow> number" where
  "js_add (Finite a) b = to_double (a + b)"
| "js_add PosInfinity b = PosInfinity"
| "js_add NegInfinity b = NegInfinity"

text \<open>A number in a JSON body: an infinity is serialised as \<open>null\<close>.\<close>

definition json_number :: "number \<Rightarrow> jvalue" where
  "json_number x = (case x of Finite n \<Rightarrow> Num n | _ \<Rightarrow> Null)"

text \<open>\<open>files.reduce((sum, f) => sum + f.size, 0)\<close>.\<close>

definition total_size :: "descriptor list \<Rightarrow> number" where
  "total_size fs = foldl (\<lambda>sum f. js_add sum (size_f f)) (Finite 0) fs"

definition list_failed :: "rejection \<Rightarrow> response" where
  "list_failed err = status_json 500 (obj [(''error'', map_option Str (message_of err))])"

definition files_handler ::
  "'s cloudinary \<Rightarrow> files_request \<Rightarrow> 's \<Rightarrow> response \<times> call list \<times> 's" where
  "files_handler cl req st =
     (let m = max_results_of req;
          qi = list_query ''image'' m;
          qv = list_query ''video'' m
      in (case api_resources cl qi st of
            (Inl err, st1) \<Rightarrow> (list_failed err, [Api_resources qi], st1)
          | (Inr images, st1) \<Rightarrow>
              (case api_resources cl qv st1 of
                 (Inl err, st2) \<Rightarrow> (list_failed err, [Api_resources qi, Api_resources qv], st2)
               | (Inr videos, st2) \<Rightarrow>
                   let resources = images @ videos;
                       files = map to_file resources;
                       totalFiles = length files;
                       totalSize = total_size files
                   in (json [(''files'', Files files),
                             (''totalFiles'', Num (int totalFiles)),
                             (''totalSize'', json_number totalSize)],
                       [Api_resources qi, Api_resources qv], st2))))"

subsection \<open>The application: the gate in front of the routes\<close>

text \<open>
  \<open>app.use(cors(...))\<close> is registered before every route. When the origin callback
  reports an error the middleware passes it on as an error and no route handler runs;
  otherwise the request goes on to the route it matches.
\<close>

datatype route =
    Health
  | Upload upload_request
  | Delete delete_request
  | List_files files_request

record request =
  origin :: "string option"
  route :: route

definition health :: response where
  "health = json [(''message'', Str ''Media uploader backend is running!'')]"

definition dispatch ::
  "'s cloudinary \<Rightarrow> env \<Rightarrow> route \<Rightarrow> 's \<Rightarrow> response \<times> call list \<times> 's" where
  "dispatch cl e r st =
     (case r of
        Health \<Rightarrow> (health, [], st)
      | Upload u \<Rightarrow> upload_handler cl e u st
      | Delete d \<Rightarrow> delete_handler cl d st
      | List_files q \<Rightarrow> files_handler cl q st)"

definition app ::
  "'s cloudinary \<Rightarrow> env \<Rightarrow> request \<Rightarrow> 's \<Rightarrow> (error + response) \<times> call list \<times> 's" where
  "app cl e rq st =
     (case cors_origin (origin rq) of
        Inl err \<Rightarrow> (Inl err, [], st)
      | Inr _ \<Rightarrow> (case dispatch cl e (route rq) st of (resp, calls, st') \<Rightarrow> (Inr resp, calls, st')))"

subsection \<open>Reading a handler's outcome\<close>

definition response_of :: "response \<times> call list \<times> 's \<Rightarrow> response" where
  "response_of out = fst out"

definition calls_of :: "'r \<times> call list \<times> 's \<Rightarrow> call list" where
  "calls_of out = fst (snd out)"

definition field :: "string \<Rightarrow> response \<Rightarrow> jvalue option" where
  "field k r = map_of (body r) k"

definition files_of :: "response \<Rightarrow> descriptor list" where
  "files_of r = (case field ''files'' r of Some (Files fs) \<Rightarrow> fs | _ \<Rightarrow> [])"

definition destroy_calls :: "call list \<Rightarrow> (string \<times> string) list" where
  "destroy_calls cs =
     concat (map (\<lambda>c. case c of Uploader_destroy i k \<Rightarrow> [(i, k)] | _ \<Rightarrow> []) cs)"

subsection \<open>Observing the calls a handler issues\<close>

text \<open>
  A handler is a function of the store it is given. \<open>recording cl\<close> is the store \<open>cl\<close>
  with a record of the calls it has received: each entry point hands the call to \<open>cl\<close>,
  returns what \<open>cl\<close> returns, and appends the call to the record kept beside \<open>cl\<close>'s
  state. Whatever the record holds after a handler has run was issued by the handler, in
  that order, and the state beside it is the state those calls left \<open>cl\<close> in.
\<close>

definition recording :: "'s cloudinary \<Rightarrow> ('s \<times> call list) cloudinary" where
  "recording cl =
     \<lparr>uploader_upload = (\<lambda>dataURI opts sl.
        (fst (uploader_upload cl dataURI opts (fst sl)),
         (snd (uploader_upload cl dataURI opts (fst sl)), snd sl @ [Uploader_upload dataURI opts]))),
      api_resource = (\<lambda>i sl.
        (fst (api_resource cl i (fst sl)),
         (snd (api_resource cl i (fst sl)), snd sl @ [Api_resource i]))),
      uploader_destroy = (\<lambda>i k sl.
        (fst (uploader_destroy cl i k (fst sl)),
         (snd (uploader_destroy cl i k (fst sl)), snd sl @ [Uploader_destroy i k]))),
      api_resources = (\<lambda>opts sl.
        (fst (api_resources cl opts (fst sl)),
         (snd (api_resources cl opts (fst sl)), snd sl @ [Api_resources opts])))\<rparr>"

text \<open>The store's state and the record after a handler has run on a recording store.\<close>

definition recorded :: "'r \<times> call list \<times> 's \<times> call list \<Rightarrow> 's \<times> call list" where
  "recorded out = snd (snd out)"

subsection \<open>Vocabulary of the specification\<close>

definition is_digit :: "char \<Rightarrow> bool" where
  "is_digit c = (c \<in> set ''0123456789'')"

definition is_alnum :: "char \<Rightarrow> bool" where
  "is_alnum c =
     (c \<in> set ''0123456789abcdefghijklmnopqrstuvwxyzABCDEFGHIJKLMNOPQRSTUVWXYZ'')"

text \<open>The pattern \<open><digits>-<6 alphanumeric chars>\<close>, matched against the whole string.\<close>

definition id_pattern :: "string \<Rightarrow> bool" where
  "id_pattern s =
     (takeWhile is_digit s \<noteq> [] \<and>
      (case dropWhile is_digit s of
         [] \<Rightarrow> False
       | c # suffix \<Rightarrow> c = CHR ''-'' \<and> length suffix = 6 \<and> list_all is_alnum suffix))"

text \<open>
  A request "with \<open>max_results=N\<close>": the parameter is the decimal numeral of \<open>N\<close>, or it
  is absent and \<open>N\<close> is the default.
\<close>

definition with_max_results :: "nat \<Rightarrow> files_request \<Rightarrow> bool" where
  "with_max_results N req =
     (case query_max_results req of None \<Rightarrow> N = 10 | Some s \<Rightarrow> s = show_nat N)"

text \<open>The count a \<open>max_results\<close> value stands for: the number, or the decimal string read.\<close>

definition cap_of :: "qvalue \<Rightarrow> nat" where
  "cap_of m =
     (case m of QNum n \<Rightarrow> n
      | QStr s \<Rightarrow> foldl (\<lambda>n c. 10 * n + (of_char c - 48)) 0 s)"

subsection \<open>A substitute store for concrete evaluations\<close>

text \<open>
  A test double behind the four entry points. Its state is the number of calls it will
  still answer and the assets it holds; once the quota is used up every call is rejected.
  It files an upload under \<open>folder/public_id\<close>, looks an asset up by its identifier,
  destroys the asset of the given identifier and kind, and lists the assets of one kind
  under a prefix, at most as many as the decimal count \<open>max_results\<close>. The upload and
  destroy calls reject with an error object, the lookup and listing calls with the Admin
  API's nested error.
\<close>

record store_state =
  quota :: nat
  assets :: "resource list"

definition sample :: "string \<Rightarrow> string \<Rightarrow> int \<Rightarrow> resource" where
  "sample kind name n =
     \<lparr>secure_url = ''https://res.example/'' @ name, public_id = name, format = ''bin'',
      resource_type = kind, bytes = n, mimetype = None, width = None, height = None,
      display_name = None, created_at = ''2024-06-01T12:00:00Z''\<rparr>"

definition library :: "resource list" where
  "library =
     [sample ''image'' ''wedding-memories/1-aaaaaa'' 100,
      sample ''video'' ''wedding-memories/2-bbbbbb'' 5000,
      sample ''image'' ''wedding-memories/3-cccccc'' 250,
      sample ''image'' ''wedding-memories/4-dddddd'' 75,
      sample ''video'' ''wedding-memories/5-eeeeee'' 9000]"

text \<open>The rejections of a used-up quota, by the upload API and by the Admin API.\<close>

definition rate_limited :: rejection where
  "rate_limited = Error_object ''Rate limit exceeded''"

definition api_rate_limited :: rejection where
  "api_rate_limited = Api_error ''Rate limit exceeded'' 420"

definition spend :: "store_state \<Rightarrow> store_state" where
  "spend s = s\<lparr>quota := quota s - 1\<rparr>"

definition limited_store :: "store_state cloudinary" where
  "limited_store =
     \<lparr>uploader_upload = (\<lambda>dataURI opts s.
        if quota s = 0 then (Inl rate_limited, s)
        else (let r = sample ''image'' (folder opts @ ''/'' @ public_id_u opts)
                        (int (length dataURI))
              in (Inr r, spend (s\<lparr>assets := assets s @ [r]\<rparr>)))),
      api_resource = (\<lambda>i s.
        if quota s = 0 then (Inl api_rate_limited, s)
        else (case find (\<lambda>r. public_id r = i) (assets s) of
                None \<Rightarrow> (Inl (Api_error (''Resource not found - '' @ i) 404), spend s)
              | Some r \<Rightarrow> (Inr r, spend s))),
      uploader_destroy = (\<lambda>i k s.
        if quota s = 0 then (Inl rate_limited, s)
        else (Inr (),
              spend (s\<lparr>assets :=
                filter (\<lambda>r. \<not> (public_id r = i \<and> resource_type r = k)) (assets s)\<rparr>))),
      api_resources = (\<lambda>opts s.
        if quota s = 0 then (Inl api_rate_limited, s)
        else (Inr (take (cap_of (max_results opts))
                    (filter (\<lambda>r. resource_type r = resource_type_l opts
                               \<and> take (length (prefix_l opts)) (public_id r) = prefix_l opts)
                       (assets s))),
              spend s))\<rparr>"

definition stocked :: "nat \<Rightarrow> store_state" where
  "stocked q = \<lparr>quota = q, assets = library\<rparr>"

text \<open>The same store, but its listing returns every match whatever \<open>max_results\<close> says.\<close>

definition uncapped_store :: "store_state cloudinary" where
  "uncapped_store =
     limited_store\<lparr>api_resources := (\<lambda>opts s.
        (Inr (filter (\<lambda>r. resource_type r = resource_type_l opts) (assets s)), spend s))\<rparr>"


text \<open>A store holding one asset of \<open>2 ^ 53\<close> bytes and two of one byte.\<close>

definition heavy :: store_state where
  "heavy =
     \<lparr>quota = 5,
        assets = [sample ''image'' ''wedding-memories/6-ffffff'' 9007199254740992,
                  sample ''image'' ''wedding-memories/7-gggggg'' 1,
                  sample ''video'' ''wedding-memories/8-hhhhhh'' 1]\<rparr>"

definition jpeg10 :: uploaded_file where
  "jpeg10 = \<lparr>buffer = [255, 216, 255, 224, 0, 16, 74, 70, 73, 70], mimetype_u = ''image/jpeg''\<rparr>"

definition clock :: env where
  "clock = \<lparr>now = 1700000000000, random36 = ''0.4fzyo82mvyr''\<rparr>"

section \<open>Properties\<close>

subsection \<open>Strings\<close>

lemma digit_char_is_digit: "d < 10 \<Longrightarrow> is_digit (digit_char d)"
proof -
  assume "d < 10"
  then have "d \<in> {0, 1, 2, 3, 4, 5, 6, 7, 8, 9}" by auto
  then show ?thesis
    by (auto simp: is_digit_def digit_char_def)
qed

lemma show_nat_digits: "list_all is_digit (show_nat n)"
proof (induction n rule: show_nat.induct)
  case (1 n)
  show ?case
  proof (cases "n < 10")
    case True
    then show ?thesis
      by (subst show_nat.simps) (simp add: digit_char_is_digit)
  next
    case False
    then have "list_all is_digit (show_nat (n div 10))" by (rule "1.IH")
    moreover have "is_digit (digit_char (n mod 10))" by (simp add: digit_char_is_digit)
    ultimately show ?thesis using False
      by (subst show_nat.simps) simp
  qed
qed

lemma show_nat_nonempty: "show_nat n \<noteq> []"
  by (subst show_nat.simps) simp

lemma takeWhile_digits:
  "list_all is_digit ds \<Longrightarrow> takeWhile is_digit (ds @ CHR ''-'' # rest) = ds"
  by (induction ds) (simp_all add: is_digit_def)

lemma dropWhile_digits:
  "list_all is_digit ds \<Longrightarrow> dropWhile is_digit (ds @ CHR ''-'' # rest) = CHR ''-'' # rest"
  by (induction ds) (simp_all add: is_digit_def)

lemma substring_2_8: "substring 2 8 s = take 6 (drop 2 s)"
  by (simp add: substring_def)

lemma generated_id_pattern:
  assumes "8 \<le> length (random36 e)"
      and "list_all is_alnum (take 6 (drop 2 (random36 e)))"
  shows "id_pattern (generated_id e)"
proof -
  have "generated_id e = show_nat (now e) @ CHR ''-'' # take 6 (drop 2 (random36 e))"
    by (simp add: generated_id_def substring_2_8)
  moreover have "length (take 6 (drop 2 (random36 e))) = 6"
    using assms(1) by simp
  ultimately show ?thesis
    using assms(2)
    by (simp add: id_pattern_def takeWhile_digits dropWhile_digits show_nat_digits
        show_nat_nonempty)
qed

lemma show_now: "show_nat (now clock) = ''1700000000000''"
  by (simp add: clock_def show_nat.simps digit_char_def)

lemma generated_id_clock: "generated_id clock = ''1700000000000-4fzyo8''"
  by (simp add: generated_id_def show_now substring_2_8) (simp add: clock_def)

lemma data_uri_jpeg10: "data_uri jpeg10 = ''data:image/jpeg;base64,/9j/4AAQSkZJRg==''"
  by (simp add: data_uri_def jpeg10_def b64_def b64chars_def)

lemma digit_value: "d < 10 \<Longrightarrow> of_char (digit_char d) - 48 = d"
proof -
  assume "d < 10"
  then have "d \<in> {0, 1, 2, 3, 4, 5, 6, 7, 8, 9}" by auto
  then show ?thesis
    by (auto simp: digit_char_def)
qed

lemma read_show_nat: "foldl (\<lambda>n c. 10 * n + (of_char c - 48)) 0 (show_nat n) = n"
proof (induction n rule: show_nat.induct)
  case (1 n)
  show ?case
  proof (cases "n < 10")
    case True
    then show ?thesis
      by (subst show_nat.simps) (simp add: digit_value)
  next
    case False
    then have "foldl (\<lambda>n c. 10 * n + (of_char c - 48)) 0 (show_nat (n div 10)) = n div 10"
      by (rule "1.IH")
    then show ?thesis using False
      by (subst show_nat.simps) (simp add: digit_value)
  qed
qed

lemma cap_of_show_nat: "cap_of (QStr (show_nat n)) = n"
  by (simp add: cap_of_def read_show_nat)

subsection \<open>Route parameters\<close>




subsection \<open>Sums of doubles\<close>

lemma bit_length_le: "n < 2 ^ k \<Longrightarrow> bit_length n \<le> k"
proof (induction k arbitrary: n)
  case 0
  then show ?case by (subst bit_length.simps) simp
next
  case (Suc k)
  show ?case
  proof (cases "n = 0")
    case True
    then show ?thesis by (subst bit_length.simps) simp
  next
    case False
    from Suc.prems have "n div 2 < 2 ^ k" by simp
    then have "bit_length (n div 2) \<le> k" by (rule Suc.IH)
    with False show ?thesis by (subst bit_length.simps) simp
  qed
qed

lemma bit_length_power: "bit_length (2 ^ k) = Suc k"
proof (induction k)
  case 0
  show ?case by (simp add: bit_length.simps)
next
  case (Suc k)
  then show ?case by (subst bit_length.simps) simp
qed

lemma nearest_even_one: "nearest_even (Suc 0) m = m"
  by (simp add: nearest_even_def)

lemma nearest_exact:
  assumes "m \<le> 2 ^ 53"
  shows "nearest_even (2 ^ (bit_length m - 53)) m = m"
proof (cases "m = 2 ^ 53")
  case True
  have "bit_length m = 54"
    using bit_length_power [of 53] by (simp add: True)
  then show ?thesis
    by (simp add: nearest_even_def True)
next
  case False
  with assms have "m < 2 ^ 53" by simp
  then have "bit_length m \<le> 53" by (rule bit_length_le)
  then show ?thesis by (simp add: nearest_even_one)
qed

lemma to_double_exact:
  assumes "\<bar>n\<bar> \<le> 2 ^ 53"
  shows "to_double n = Finite n"
proof -
  have m: "nat \<bar>n\<bar> \<le> 2 ^ 53"
    using assms by (simp add: nat_le_iff)
  have small: "\<not> (2::int) ^ 1024 \<le> \<bar>n\<bar>"
  proof
    assume "(2::int) ^ 1024 \<le> \<bar>n\<bar>"
    then have "(2::int) ^ 1024 \<le> 2 ^ 53" using assms by (rule order_trans)
    then show False by simp
  qed
  have r: "int (nearest_even (2 ^ (bit_length (nat \<bar>n\<bar>) - 53)) (nat \<bar>n\<bar>)) = \<bar>n\<bar>"
    by (simp add: nearest_exact [OF m])
  have "to_double n = Finite (if n < 0 then - \<bar>n\<bar> else \<bar>n\<bar>)"
    unfolding to_double_def Let_def r using small by (simp only: if_False)
  then show ?thesis by simp
qed

lemma total_size_from:
  assumes "list_all (\<lambda>f. 0 \<le> size_f f) fs" and "0 \<le> a"
      and "a + sum_list (map size_f fs) \<le> 2 ^ 53"
  shows "foldl (\<lambda>sum f. js_add sum (size_f f)) (Finite a) fs =
           Finite (a + sum_list (map size_f fs))"
  using assms
proof (induction fs arbitrary: a)
  case Nil
  then show ?case by simp
next
  case (Cons f fs)
  from Cons.prems have f: "0 \<le> size_f f" and rest: "list_all (\<lambda>f. 0 \<le> size_f f) fs"
    by simp_all
  from rest have "0 \<le> sum_list (map size_f fs)"
    by (induction fs) simp_all
  with Cons.prems f have "\<bar>a + size_f f\<bar> \<le> 2 ^ 53" by simp
  then have step: "js_add (Finite a) (size_f f) = Finite (a + size_f f)"
    by (simp add: to_double_exact)
  have "foldl (\<lambda>sum f. js_add sum (size_f f)) (Finite (a + size_f f)) fs =
          Finite (a + size_f f + sum_list (map size_f fs))"
    using rest f Cons.prems by (intro Cons.IH) simp_all
  with step show ?case by (simp add: add.assoc)
qed

lemma total_size_exact:
  assumes "list_all (\<lambda>f. 0 \<le> size_f f) fs" and "sum_list (map size_f fs) \<le> 2 ^ 53"
  shows "total_size fs = Finite (sum_list (map size_f fs))"
  using total_size_from [OF assms(1), of 0] assms(2) by (simp add: total_size_def)

lemma bit_length_above: "bit_length 9007199254740993 = 54"
  by (simp add: bit_length.simps)

lemma bit_length_above2: "bit_length 9007199254740992 = 54"
  by (simp add: bit_length.simps)

lemma round_above: "to_double 9007199254740993 = Finite 9007199254740992"
  by (simp add: to_double_def bit_length_above nearest_even_def)

lemma round_at: "to_double 9007199254740992 = Finite 9007199254740992"
  by (simp add: to_double_def bit_length_above2 nearest_even_def)

subsection \<open>One equation per path of a handler\<close>

lemma upload_handler_no_file:
  assumes "req_file req = None"
  shows "upload_handler cl e req st =
           (\<lparr>status = 400, body = [(''error'', Str ''No file uploaded'')]\<rparr>, [], st)"
  using assms by (simp add: upload_handler_def status_json_def)

lemma upload_handler_ok:
  assumes "req_file req = Some f"
      and "uploader_upload cl (data_uri f) (upload_opts e) st = (Inr result, st')"
  shows "upload_handler cl e req st =
           (\<lparr>status = 200,
              body = [(''message'', Str ''Upload successful''),
                      (''url'', Str (secure_url result)),
                      (''public_id'', Str (public_id result))]\<rparr>,
            [Uploader_upload (data_uri f) (upload_opts e)], st')"
  using assms by (simp add: upload_handler_def json_def Let_def)


lemma delete_failed_body:
  "delete_failed err =
     \<lparr>status = 500,
        body = (''error'', Str ''Failed to delete file from Cloudinary'') #
               (case message_of err of None \<Rightarrow> [] | Some m \<Rightarrow> [(''details'', Str m)])\<rparr>"
  by (simp add: delete_failed_def status_json_def obj_def split: option.splits)

lemma list_failed_body:
  "list_failed err =
     \<lparr>status = 500,
        body = (case message_of err of None \<Rightarrow> [] | Some m \<Rightarrow> [(''error'', Str m)])\<rparr>"
  by (simp add: list_failed_def status_json_def obj_def split: option.splits)

lemma delete_handler_lookup_failed:
  assumes "api_resource cl (cloudinaryId req) st = (Inl err, st1)"
  shows "delete_handler cl req st =
           (delete_failed err, [Api_resource (cloudinaryId req)], st1)"
  using assms by (simp add: delete_handler_def Let_def)

lemma delete_handler_destroy_failed:
  assumes "api_resource cl (cloudinaryId req) st = (Inr res, st1)"
      and "uploader_destroy cl (cloudinaryId req) (resource_type res) st1 = (Inl err, st2)"
  shows "delete_handler cl req st =
           (delete_failed err,
            [Api_resource (cloudinaryId req),
             Uploader_destroy (cloudinaryId req) (resource_type res)], st2)"
  using assms by (simp add: delete_handler_def Let_def)

lemma delete_handler_ok:
  assumes "api_resource cl (cloudinaryId req) st = (Inr res, st1)"
      and "uploader_destroy cl (cloudinaryId req) (resource_type res) st1 = (Inr u, st2)"
  shows "delete_handler cl req st =
           (\<lparr>status = 200,
              body = [(''message'', Str ''File deleted successfully from Cloudinary'')]\<rparr>,
            [Api_resource (cloudinaryId req),
             Uploader_destroy (cloudinaryId req) (resource_type res)], st2)"
  using assms by (simp add: delete_handler_def json_def Let_def)

lemma files_handler_ok:
  assumes "api_resources cl (list_query ''image'' (max_results_of req)) st = (Inr images, st1)"
      and "api_resources cl (list_query ''video'' (max_results_of req)) st1 = (Inr videos, st2)"
  shows "files_handler cl req st =
           (\<lparr>status = 200,
              body = [(''files'', Files (map to_file (images @ videos))),
                      (''totalFiles'', Num (int (length (images @ videos)))),
                      (''totalSize'', json_number (total_size (map to_file (images @ videos))))]\<rparr>,
            [Api_resources (list_query ''image'' (max_results_of req)),
             Api_resources (list_query ''video'' (max_results_of req))], st2)"
  using assms by (simp add: files_handler_def json_def Let_def)

lemma files_handler_image_failed:
  assumes "api_resources cl (list_query ''image'' (max_results_of req)) st = (Inl err, st1)"
  shows "files_handler cl req st =
           (list_failed err, [Api_resources (list_query ''image'' (max_results_of req))], st1)"
  using assms by (simp add: files_handler_def Let_def)

lemma files_handler_video_failed:
  assumes "api_resources cl (list_query ''image'' (max_results_of req)) st = (Inr images, st1)"
      and "api_resources cl (list_query ''video'' (max_results_of req)) st1 = (Inl err, st2)"
  shows "files_handler cl req st =
           (list_failed err,
            [Api_resources (list_query ''image'' (max_results_of req)),
             Api_resources (list_query ''video'' (max_results_of req))], st2)"
  using assms by (simp add: files_handler_def Let_def)

subsection \<open>What a recording store records\<close>

lemma recording_simps [simp]:
  "uploader_upload (recording cl) d opts sl =
     (fst (uploader_upload cl d opts (fst sl)),
      (snd (uploader_upload cl d opts (fst sl)), snd sl @ [Uploader_upload d opts]))"
  "api_resource (recording cl) i sl =
     (fst (api_resource cl i (fst sl)), (snd (api_resource cl i (fst sl)), snd sl @ [Api_resource i]))"
  "uploader_destroy (recording cl) i k sl =
     (fst (uploader_destroy cl i k (fst sl)),
      (snd (uploader_destroy cl i k (fst sl)), snd sl @ [Uploader_destroy i k]))"
  "api_resources (recording cl) q sl =
     (fst (api_resources cl q (fst sl)),
      (snd (api_resources cl q (fst sl)), snd sl @ [Api_resources q]))"
  by (simp_all add: recording_def)

lemma delete_handler_recorded:
  "recorded (delete_handler (recording cl) req (st, log)) =
     (case api_resource cl (cloudinaryId req) st of
        (Inl err, st1) \<Rightarrow> (st1, log @ [Api_resource (cloudinaryId req)])
      | (Inr res, st1) \<Rightarrow>
          (snd (uploader_destroy cl (cloudinaryId req) (resource_type res) st1),
           log @ [Api_resource (cloudinaryId req),
                  Uploader_destroy (cloudinaryId req) (resource_type res)]))"
proof (cases "api_resource cl (cloudinaryId req) st")
  case (Pair r st1)
  show ?thesis
  proof (cases r)
    case (Inl err)
    with Pair show ?thesis
      by (simp add: delete_handler_def recorded_def Let_def)
  next
    case (Inr res)
    with Pair show ?thesis
      by (cases "uploader_destroy cl (cloudinaryId req) (resource_type res) st1";
          cases "fst (uploader_destroy cl (cloudinaryId req) (resource_type res) st1)")
        (simp_all add: delete_handler_def recorded_def Let_def)
  qed
qed

lemma files_handler_recorded:
  "recorded (files_handler (recording cl) req (st, log)) =
     (case api_resources cl (list_query ''image'' (max_results_of req)) st of
        (Inl err, st1) \<Rightarrow> (st1, log @ [Api_resources (list_query ''image'' (max_results_of req))])
      | (Inr images, st1) \<Rightarrow>
          (snd (api_resources cl (list_query ''video'' (max_results_of req)) st1),
           log @ [Api_resources (list_query ''image'' (max_results_of req)),
                  Api_resources (list_query ''video'' (max_results_of req))]))"
proof (cases "api_resources cl (list_query ''image'' (max_results_of req)) st")
  case (Pair r st1)
  show ?thesis
  proof (cases r)
    case (Inl err)
    with Pair show ?thesis
      by (simp add: files_handler_def recorded_def Let_def)
  next
    case (Inr images)
    with Pair show ?thesis
      by (cases "api_resources cl (list_query ''video'' (max_results_of req)) st1";
          cases "fst (api_resources cl (list_query ''video'' (max_results_of req)) st1)")
        (simp_all add: files_handler_def recorded_def Let_def)
  qed
qed

lemma upload_handler_recorded:
  "recorded (upload_handler (recording cl) e req (st, log)) =
     (case req_file req of
        None \<Rightarrow> (st, log)
      | Some f \<Rightarrow>
          (snd (uploader_upload cl (data_uri f) (upload_opts e) st),
           log @ [Uploader_upload (data_uri f) (upload_opts e)]))"
proof (cases "req_file req")
  case None
  then show ?thesis
    by (simp add: upload_handler_def recorded_def)
next
  case (Some f)
  then show ?thesis
    by (cases "uploader_upload cl (data_uri f) (upload_opts e) st";
        cases "fst (uploader_upload cl (data_uri f) (upload_opts e) st)")
      (simp_all add: upload_handler_def recorded_def Let_def)
qed

text \<open>The list a handler returns beside its response is the record of a recording store.\<close>

lemma upload_handler_log:
  "recorded (upload_handler (recording cl) e req (st, log)) =
     (snd (snd (upload_handler cl e req st)), log @ calls_of (upload_handler cl e req st))"
  by (simp add: upload_handler_recorded)
    (simp add: upload_handler_def calls_of_def Let_def split: option.splits prod.splits sum.splits)

lemma delete_handler_log:
  "recorded (delete_handler (recording cl) req (st, log)) =
     (snd (snd (delete_handler cl req st)), log @ calls_of (delete_handler cl req st))"
  by (simp add: delete_handler_recorded)
    (simp add: delete_handler_def calls_of_def Let_def split: prod.splits sum.splits)

lemma files_handler_log:
  "recorded (files_handler (recording cl) req (st, log)) =
     (snd (snd (files_handler cl req st)), log @ calls_of (files_handler cl req st))"
  by (simp add: files_handler_recorded)
    (simp add: files_handler_def calls_of_def Let_def split: prod.splits sum.splits)

subsection \<open>The substitute store at concrete inputs\<close>

lemma stocked_simps [simp]:
  "quota (stocked q) = q" "assets (stocked q) = library"
  by (simp_all add: stocked_def)

lemma spend_stocked [simp]: "spend (stocked q) = stocked (q - 1)"
  by (simp add: spend_def stocked_def)

lemma limited_store_rejects:
  "uploader_upload limited_store d opts (stocked 0) = (Inl rate_limited, stocked 0)"
  "api_resource limited_store i (stocked 0) = (Inl api_rate_limited, stocked 0)"
  "uploader_destroy limited_store i k (stocked 0) = (Inl rate_limited, stocked 0)"
  "api_resources limited_store q (stocked 0) = (Inl api_rate_limited, stocked 0)"
  by (simp_all add: limited_store_def)

lemma images_default:
  "api_resources limited_store (list_query ''image'' (QNum 10)) (stocked (Suc q)) =
     (Inr [sample ''image'' ''wedding-memories/1-aaaaaa'' 100,
           sample ''image'' ''wedding-memories/3-cccccc'' 250,
           sample ''image'' ''wedding-memories/4-dddddd'' 75], stocked q)"
  by (simp add: limited_store_def list_query_def cap_of_def library_def sample_def)

lemma videos_default:
  "api_resources limited_store (list_query ''video'' (QNum 10)) (stocked (Suc q)) =
     (Inr [sample ''video'' ''wedding-memories/2-bbbbbb'' 5000,
           sample ''video'' ''wedding-memories/5-eeeeee'' 9000], stocked q)"
  by (simp add: limited_store_def list_query_def cap_of_def library_def sample_def)

lemma images_two:
  "api_resources limited_store (list_query ''image'' (QStr ''2'')) (stocked (Suc q)) =
     (Inr [sample ''image'' ''wedding-memories/1-aaaaaa'' 100,
           sample ''image'' ''wedding-memories/3-cccccc'' 250], stocked q)"
  by (simp add: limited_store_def list_query_def cap_of_def library_def sample_def)

lemma videos_two:
  "api_resources limited_store (list_query ''video'' (QStr ''2'')) (stocked (Suc q)) =
     (Inr [sample ''video'' ''wedding-memories/2-bbbbbb'' 5000,
           sample ''video'' ''wedding-memories/5-eeeeee'' 9000], stocked q)"
  by (simp add: limited_store_def list_query_def cap_of_def library_def sample_def)

lemma max_results_of_absent [simp]: "max_results_of \<lparr>query_max_results = None\<rparr> = QNum 10"
  by (simp add: max_results_of_def)

lemma max_results_of_present [simp]: "max_results_of \<lparr>query_max_results = Some s\<rparr> = QStr s"
  by (simp add: max_results_of_def)

lemma show_two: "show_nat 2 = ''2''"
  by (simp add: show_nat.simps digit_char_def)

lemma lookup_video:
  "api_resource limited_store ''wedding-memories/2-bbbbbb'' (stocked (Suc q)) =
     (Inr (sample ''video'' ''wedding-memories/2-bbbbbb'' 5000), stocked q)"
  by (simp add: limited_store_def library_def sample_def)

lemma lookup_missing:
  "api_resource limited_store ''wedding-memories/9-zzzzzz'' (stocked (Suc q)) =
     (Inl (Api_error ''Resource not found - wedding-memories/9-zzzzzz'' 404), stocked q)"
  by (simp add: limited_store_def library_def sample_def)

lemma upload_clock:
  "uploader_upload limited_store (data_uri jpeg10) (upload_opts clock) (stocked 3) =
     (Inr (sample ''image'' ''wedding-memories/1700000000000-4fzyo8'' 39),
      \<lparr>quota = 2,
         assets = library @ [sample ''image'' ''wedding-memories/1700000000000-4fzyo8'' 39]\<rparr>)"
  by (simp add: limited_store_def upload_opts_def generated_id_clock data_uri_jpeg10
      Let_def spend_def)


subsection \<open>Delete: lookup, then destroy\<close>

text \<open>
  C1, as amended. Run on a recording store, the delete handler leaves a record that always
  begins with the kind lookup for the request's identifier. When the lookup resolves, one
  destroy call follows, for the same identifier and scoped to the kind the lookup
  reported, and the store is left in the state that destroy call produced from the state
  the lookup left. When the lookup is rejected, the record ends there: no destroy call
  reaches the store. No other call is made.
\<close>

theorem delete_lookup_then_destroy:
  "recorded (delete_handler (recording cl) req (st, [])) =
     (case api_resource cl (cloudinaryId req) st of
        (Inl err, st1) \<Rightarrow> (st1, [Api_resource (cloudinaryId req)])
      | (Inr res, st1) \<Rightarrow>
          (snd (uploader_destroy cl (cloudinaryId req) (resource_type res) st1),
           [Api_resource (cloudinaryId req),
            Uploader_destroy (cloudinaryId req) (resource_type res)]))"
  by (simp add: delete_handler_recorded split: prod.splits sum.splits)

text \<open>
  C1 as stated promises one destroy call for every delete request. A request for an
  identifier the store does not know reaches the store with the lookup and nothing else.
\<close>

theorem delete_without_destroy_counterexample:
  "recorded (delete_handler (recording limited_store)
       \<lparr>cloudinaryId = ''wedding-memories/9-zzzzzz''\<rparr> (stocked 5, [])) =
     (stocked 4, [Api_resource ''wedding-memories/9-zzzzzz''])
   \<and> length (destroy_calls (snd (recorded (delete_handler (recording limited_store)
         \<lparr>cloudinaryId = ''wedding-memories/9-zzzzzz''\<rparr> (stocked 5, []))))) \<noteq> 1"
proof -
  have "api_resource limited_store ''wedding-memories/9-zzzzzz'' (stocked 5) =
          (Inl (Api_error ''Resource not found - wedding-memories/9-zzzzzz'' 404), stocked 4)"
    using lookup_missing [of 4] by simp
  then show ?thesis
    by (simp add: delete_handler_recorded destroy_calls_def)
qed

theorem delete_lookup_then_destroy_witness:
  "recorded (delete_handler (recording limited_store)
       \<lparr>cloudinaryId = ''wedding-memories/2-bbbbbb''\<rparr> (stocked 5, [])) =
     (snd (uploader_destroy limited_store ''wedding-memories/2-bbbbbb'' ''video'' (stocked 4)),
      [Api_resource ''wedding-memories/2-bbbbbb'',
       Uploader_destroy ''wedding-memories/2-bbbbbb'' ''video''])"
proof -
  have "api_resource limited_store ''wedding-memories/2-bbbbbb'' (stocked 5) =
          (Inr (sample ''video'' ''wedding-memories/2-bbbbbb'' 5000), stocked 4)"
    using lookup_video [of 4] by simp
  then show ?thesis
    using delete_lookup_then_destroy
      [of limited_store "\<lparr>cloudinaryId = ''wedding-memories/2-bbbbbb''\<rparr>" "stocked 5"]
    by (simp add: sample_def)
qed

subsection \<open>Upload: what a successful response carries\<close>

text \<open>
  C2, as amended. When a file is present and the store accepts the upload, the response
  has status 200, its \<open>url\<close> is the store's \<open>secure_url\<close> and its \<open>public_id\<close> is the
  \<open>public_id\<close> the store reports. The identifier the service generates is only what the
  single upload call requests, under the folder \<open>wedding-memories\<close>: the decimal digits of
  the timestamp, a hyphen, and characters 2 to 8 of the base-36 random string. It has the
  shape \<open><digits>-<6 alphanumeric chars>\<close> whenever that string has at least eight
  characters and those six are alphanumeric, as base-36 digits are.
\<close>

theorem upload_success_response:
  assumes "req_file req = Some f"
      and "uploader_upload cl (data_uri f) (upload_opts e) st = (Inr result, st')"
  shows "response_of (upload_handler cl e req st) =
           \<lparr>status = 200,
              body = [(''message'', Str ''Upload successful''),
                      (''url'', Str (secure_url result)),
                      (''public_id'', Str (public_id result))]\<rparr>
       \<and> calls_of (upload_handler cl e req st) = [Uploader_upload (data_uri f) (upload_opts e)]
       \<and> folder (upload_opts e) = ''wedding-memories''
       \<and> public_id_u (upload_opts e) = show_nat (now e) @ ''-'' @ take 6 (drop 2 (random36 e))
       \<and> show_nat (now e) \<noteq> [] \<and> list_all is_digit (show_nat (now e))
       \<and> (8 \<le> length (random36 e) \<and> list_all is_alnum (take 6 (drop 2 (random36 e)))
            \<longrightarrow> id_pattern (public_id_u (upload_opts e)))"
  using assms
  by (simp add: upload_handler_ok response_of_def calls_of_def upload_opts_def
      show_nat_nonempty show_nat_digits generated_id_pattern)
    (simp add: generated_id_def substring_2_8)

theorem upload_success_response_witness:
  "req_file \<lparr>req_file = Some jpeg10\<rparr> = Some jpeg10
   \<and> response_of (upload_handler limited_store clock \<lparr>req_file = Some jpeg10\<rparr> (stocked 3)) =
       \<lparr>status = 200,
          body = [(''message'', Str ''Upload successful''),
                  (''url'', Str ''https://res.example/wedding-memories/1700000000000-4fzyo8''),
                  (''public_id'', Str ''wedding-memories/1700000000000-4fzyo8'')]\<rparr>
   \<and> 8 \<le> length (random36 clock)
   \<and> list_all is_alnum (take 6 (drop 2 (random36 clock)))
   \<and> id_pattern (public_id_u (upload_opts clock))"
proof -
  have f: "req_file \<lparr>req_file = Some jpeg10\<rparr> = Some jpeg10" by simp
  have r: "8 \<le> length (random36 clock) \<and> list_all is_alnum (take 6 (drop 2 (random36 clock)))"
    by (simp add: clock_def is_alnum_def)
  note t = upload_success_response [OF f upload_clock]
  from t have resp:
    "response_of (upload_handler limited_store clock \<lparr>req_file = Some jpeg10\<rparr> (stocked 3)) =
       \<lparr>status = 200,
          body = [(''message'', Str ''Upload successful''),
                  (''url'', Str ''https://res.example/wedding-memories/1700000000000-4fzyo8''),
                  (''public_id'', Str ''wedding-memories/1700000000000-4fzyo8'')]\<rparr>"
    by (simp add: sample_def)
  from t r have "id_pattern (public_id_u (upload_opts clock))" by blast
  with f resp r show ?thesis by blast
qed

text \<open>
  C2 as stated takes the returned \<open>public_id\<close> to be the generated identifier. A store
  that files the asset under its folder reports \<open>wedding-memories/<generated>\<close>, and that
  is what the response carries: it differs from the generated identifier and does not have
  the shape \<open><digits>-<6 alphanumeric chars>\<close>.
\<close>

theorem upload_returns_store_id_counterexample:
  "status (response_of (upload_handler limited_store clock \<lparr>req_file = Some jpeg10\<rparr> (stocked 3))) = 200
   \<and> field ''public_id'' (response_of (upload_handler limited_store clock
         \<lparr>req_file = Some jpeg10\<rparr> (stocked 3))) = Some (Str ''wedding-memories/1700000000000-4fzyo8'')
   \<and> generated_id clock = ''1700000000000-4fzyo8''
   \<and> ''wedding-memories/1700000000000-4fzyo8'' \<noteq> generated_id clock
   \<and> \<not> id_pattern ''wedding-memories/1700000000000-4fzyo8''"
proof -
  have f: "req_file \<lparr>req_file = Some jpeg10\<rparr> = Some jpeg10" by simp
  have "\<not> id_pattern ''wedding-memories/1700000000000-4fzyo8''"
    by (simp add: id_pattern_def is_digit_def)
  then show ?thesis
    by (simp add: upload_handler_ok [OF f upload_clock] response_of_def field_def sample_def
        generated_id_clock)
qed

subsection \<open>Listing: totals\<close>

text \<open>
  C3, as amended. Every GET /files response with status 200 comes from two resolved
  listing queries, and over the projection \<open>fs\<close> of the image results followed by the video
  results its body is \<open>files = fs\<close>, \<open>totalFiles = length fs\<close> and \<open>totalSize\<close> the sum of the
  \<open>size\<close> fields added up as doubles. When every size is a non-negative integer and their
  sum is at most \<open>2 ^ 53\<close>, \<open>totalSize\<close> is that sum exactly.
\<close>

theorem files_totals:
  assumes "status (response_of (files_handler cl req st)) = 200"
  shows "\<exists>images videos st1 st2 fs.
           api_resources cl (list_query ''image'' (max_results_of req)) st = (Inr images, st1)
         \<and> api_resources cl (list_query ''video'' (max_results_of req)) st1 = (Inr videos, st2)
         \<and> fs = map to_file (images @ videos)
         \<and> body (response_of (files_handler cl req st)) =
               [(''files'', Files fs),
                (''totalFiles'', Num (int (length fs))),
                (''totalSize'', json_number (total_size fs))]
         \<and> (list_all (\<lambda>f. 0 \<le> size_f f) fs \<and> sum_list (map size_f fs) \<le> 2 ^ 53
              \<longrightarrow> field ''totalSize'' (response_of (files_handler cl req st)) =
                    Some (Num (sum_list (map size_f fs))))"
proof (cases "api_resources cl (list_query ''image'' (max_results_of req)) st")
  case (Pair ri st1)
  show ?thesis
  proof (cases ri)
    case (Inl err)
    with Pair assms show ?thesis
      by (simp add: files_handler_image_failed response_of_def list_failed_body)
  next
    case (Inr images)
    note img = Pair [unfolded Inr]
    show ?thesis
    proof (cases "api_resources cl (list_query ''video'' (max_results_of req)) st1")
      case (Pair rv st2)
      show ?thesis
      proof (cases rv)
        case (Inl err)
        with img Pair assms show ?thesis
          by (simp add: files_handler_video_failed response_of_def list_failed_body)
      next
        case (Inr videos)
        with img Pair show ?thesis
          by (simp add: files_handler_ok response_of_def field_def total_size_exact
              json_number_def)
      qed
    qed
  qed
qed

theorem files_totals_witness:
  "status (response_of (files_handler limited_store \<lparr>query_max_results = None\<rparr> (stocked 5))) = 200
   \<and> field ''totalFiles'' (response_of (files_handler limited_store
         \<lparr>query_max_results = None\<rparr> (stocked 5))) = Some (Num 5)
   \<and> field ''totalSize'' (response_of (files_handler limited_store
         \<lparr>query_max_results = None\<rparr> (stocked 5))) = Some (Num 14425)"
proof -
  let ?out = "files_handler limited_store \<lparr>query_max_results = None\<rparr> (stocked 5)"
  have img: "api_resources limited_store
               (list_query ''image'' (max_results_of \<lparr>query_max_results = None\<rparr>)) (stocked 5) =
             (Inr [sample ''image'' ''wedding-memories/1-aaaaaa'' 100,
                   sample ''image'' ''wedding-memories/3-cccccc'' 250,
                   sample ''image'' ''wedding-memories/4-dddddd'' 75], stocked 4)"
    using images_default [of 4] by simp
  have vid: "api_resources limited_store
               (list_query ''video'' (max_results_of \<lparr>query_max_results = None\<rparr>)) (stocked 4) =
             (Inr [sample ''video'' ''wedding-memories/2-bbbbbb'' 5000,
                   sample ''video'' ''wedding-memories/5-eeeeee'' 9000], stocked 3)"
    using videos_default [of 3] by simp
  have ok: "status (response_of ?out) = 200"
    by (simp add: files_handler_ok [OF img vid] response_of_def)
  from files_totals [OF ok] obtain images videos st1 st2 fs where
    i: "api_resources limited_store
          (list_query ''image'' (max_results_of \<lparr>query_max_results = None\<rparr>)) (stocked 5) =
        (Inr images, st1)" and
    v: "api_resources limited_store
          (list_query ''video'' (max_results_of \<lparr>query_max_results = None\<rparr>)) st1 =
        (Inr videos, st2)" and
    fs: "fs = map to_file (images @ videos)" and
    b: "body (response_of ?out) =
          [(''files'', Files fs), (''totalFiles'', Num (int (length fs))),
           (''totalSize'', json_number (total_size fs))]" and
    exact: "list_all (\<lambda>f. 0 \<le> size_f f) fs \<and> sum_list (map size_f fs) \<le> 2 ^ 53
              \<longrightarrow> field ''totalSize'' (response_of ?out) = Some (Num (sum_list (map size_f fs)))"
    by blast
  from i img have "images = [sample ''image'' ''wedding-memories/1-aaaaaa'' 100,
                   sample ''image'' ''wedding-memories/3-cccccc'' 250,
                   sample ''image'' ''wedding-memories/4-dddddd'' 75]" and "st1 = stocked 4"
    by simp_all
  moreover from this v vid have "videos = [sample ''video'' ''wedding-memories/2-bbbbbb'' 5000,
                   sample ''video'' ''wedding-memories/5-eeeeee'' 9000]"
    by simp
  ultimately have sizes: "map size_f fs = [100, 250, 75, 5000, 9000]" and n: "length fs = 5"
    using fs by (simp_all add: to_file_def sample_def)
  have "list_all (\<lambda>x. 0 \<le> x) (map size_f fs)"
    by (simp add: sizes)
  then have "list_all (\<lambda>f. 0 \<le> size_f f) fs"
    by (simp add: list.pred_map comp_def)
  moreover have "sum_list (map size_f fs) = 14425" by (simp add: sizes)
  ultimately have "field ''totalSize'' (response_of ?out) = Some (Num 14425)"
    using exact by simp
  with ok b n show ?thesis
    by (simp add: field_def)
qed

text \<open>
  C3 as stated makes \<open>totalSize\<close> the exact sum for every successful response. With one
  asset of \<open>2 ^ 53\<close> bytes and two of one byte the sum is \<open>2 ^ 53 + 2\<close>, and each addition
  of one byte is rounded away: the response reports \<open>2 ^ 53\<close>.
\<close>

theorem files_total_rounded_counterexample:
  "status (response_of (files_handler limited_store \<lparr>query_max_results = None\<rparr> heavy)) = 200
   \<and> map size_f (files_of (response_of (files_handler limited_store
         \<lparr>query_max_results = None\<rparr> heavy))) = [9007199254740992, 1, 1]
   \<and> sum_list [9007199254740992, 1, 1] = (9007199254740994 :: int)
   \<and> field ''totalSize'' (response_of (files_handler limited_store
         \<lparr>query_max_results = None\<rparr> heavy)) = Some (Num 9007199254740992)"
proof -
  have img: "api_resources limited_store
               (list_query ''image'' (max_results_of \<lparr>query_max_results = None\<rparr>)) heavy =
             (Inr [sample ''image'' ''wedding-memories/6-ffffff'' 9007199254740992,
                   sample ''image'' ''wedding-memories/7-gggggg'' 1], spend heavy)"
    by (simp add: limited_store_def list_query_def cap_of_def heavy_def sample_def)
  have vid: "api_resources limited_store
               (list_query ''video'' (max_results_of \<lparr>query_max_results = None\<rparr>)) (spend heavy) =
             (Inr [sample ''video'' ''wedding-memories/8-hhhhhh'' 1], spend (spend heavy))"
    by (simp add: limited_store_def list_query_def cap_of_def heavy_def sample_def spend_def)
  have total: "total_size (map to_file
                 [sample ''image'' ''wedding-memories/6-ffffff'' 9007199254740992,
                  sample ''image'' ''wedding-memories/7-gggggg'' 1,
                  sample ''video'' ''wedding-memories/8-hhhhhh'' 1]) = Finite 9007199254740992"
    by (simp add: total_size_def to_file_def sample_def round_at round_above)
  show ?thesis
    using total
    by (simp add: files_handler_ok [OF img vid] response_of_def field_def files_of_def
        json_number_def)
      (simp add: to_file_def sample_def)
qed

subsection \<open>Listing: the two queries and their cap\<close>

text \<open>
  C4, as amended. For a request with \<open>max_results=N\<close> (\<open>N = 10\<close> when the parameter is
  absent) the value sent as \<open>max_results\<close> stands for \<open>N\<close>. Run on a recording store, the
  handler issues the image query and, once it has resolved, the video query on the state
  the image query left; both are of type \<open>upload\<close>, restricted to the prefix
  \<open>wedding-memories/\<close>, and carry that same value. When the image query is rejected the
  video query does not reach the store. The handler does not shorten what it is given:
  when both queries resolve and the store returns for each no more entries than the
  \<open>max_results\<close> it was asked for, the returned \<open>files\<close> list has at most \<open>2 * N\<close> entries.
\<close>

theorem files_queries_capped:
  assumes "with_max_results N req"
  shows "cap_of (max_results_of req) = N
       \<and> list_query ''image'' (max_results_of req) =
           \<lparr>type_l = ''upload'', resource_type_l = ''image'',
              prefix_l = ''wedding-memories/'', max_results = max_results_of req\<rparr>
       \<and> list_query ''video'' (max_results_of req) =
           \<lparr>type_l = ''upload'', resource_type_l = ''video'',
              prefix_l = ''wedding-memories/'', max_results = max_results_of req\<rparr>
       \<and> recorded (files_handler (recording cl) req (st, [])) =
           (case api_resources cl (list_query ''image'' (max_results_of req)) st of
              (Inl err, st1) \<Rightarrow> (st1, [Api_resources (list_query ''image'' (max_results_of req))])
            | (Inr images, st1) \<Rightarrow>
                (snd (api_resources cl (list_query ''video'' (max_results_of req)) st1),
                 [Api_resources (list_query ''image'' (max_results_of req)),
                  Api_resources (list_query ''video'' (max_results_of req))]))
       \<and> (\<forall>images st1 videos st2.
             api_resources cl (list_query ''image'' (max_results_of req)) st = (Inr images, st1)
           \<and> api_resources cl (list_query ''video'' (max_results_of req)) st1 = (Inr videos, st2)
           \<and> length images \<le> cap_of (max_results (list_query ''image'' (max_results_of req)))
           \<and> length videos \<le> cap_of (max_results (list_query ''video'' (max_results_of req)))
           \<longrightarrow> files_of (response_of (files_handler cl req st)) = map to_file (images @ videos)
               \<and> length (files_of (response_of (files_handler cl req st))) \<le> 2 * N)"
proof -
  have cap: "cap_of (max_results_of req) = N"
  proof (cases "query_max_results req")
    case None
    with assms show ?thesis
      by (simp add: with_max_results_def max_results_of_def cap_of_def)
  next
    case (Some s)
    with assms show ?thesis
      by (simp add: with_max_results_def max_results_of_def cap_of_show_nat)
  qed
  have "files_of (response_of (files_handler cl req st)) = map to_file (images @ videos)
        \<and> length (files_of (response_of (files_handler cl req st))) \<le> 2 * N"
    if "api_resources cl (list_query ''image'' (max_results_of req)) st = (Inr images, st1)"
      and "api_resources cl (list_query ''video'' (max_results_of req)) st1 = (Inr videos, st2)"
      and "length images \<le> cap_of (max_results (list_query ''image'' (max_results_of req)))"
      and "length videos \<le> cap_of (max_results (list_query ''video'' (max_results_of req)))"
    for images st1 videos st2
    using that cap
    by (simp add: files_handler_ok response_of_def field_def files_of_def list_query_def)
  moreover have "recorded (files_handler (recording cl) req (st, [])) =
           (case api_resources cl (list_query ''image'' (max_results_of req)) st of
              (Inl err, st1) \<Rightarrow> (st1, [Api_resources (list_query ''image'' (max_results_of req))])
            | (Inr images, st1) \<Rightarrow>
                (snd (api_resources cl (list_query ''video'' (max_results_of req)) st1),
                 [Api_resources (list_query ''image'' (max_results_of req)),
                  Api_resources (list_query ''video'' (max_results_of req))]))"
    by (simp add: files_handler_recorded split: prod.splits sum.splits)
  moreover have "list_query ''image'' (max_results_of req) =
           \<lparr>type_l = ''upload'', resource_type_l = ''image'',
              prefix_l = ''wedding-memories/'', max_results = max_results_of req\<rparr>"
    and "list_query ''video'' (max_results_of req) =
           \<lparr>type_l = ''upload'', resource_type_l = ''video'',
              prefix_l = ''wedding-memories/'', max_results = max_results_of req\<rparr>"
    by (simp_all add: list_query_def)
  ultimately show ?thesis
    using cap by blast
qed

theorem files_queries_capped_witness:
  "with_max_results 2 \<lparr>query_max_results = Some ''2''\<rparr>
   \<and> recorded (files_handler (recording limited_store) \<lparr>query_max_results = Some ''2''\<rparr>
        (stocked 2, [])) =
       (stocked 0,
        [Api_resources (list_query ''image'' (QStr ''2'')),
         Api_resources (list_query ''video'' (QStr ''2''))])
   \<and> length (files_of (response_of (files_handler limited_store
          \<lparr>query_max_results = Some ''2''\<rparr> (stocked 2)))) \<le> 2 * 2"
proof -
  let ?req = "\<lparr>query_max_results = Some ''2''\<rparr>"
  have w: "with_max_results 2 ?req"
    by (simp add: with_max_results_def show_two)
  have img: "api_resources limited_store (list_query ''image'' (QStr ''2'')) (stocked 2) =
             (Inr [sample ''image'' ''wedding-memories/1-aaaaaa'' 100,
                   sample ''image'' ''wedding-memories/3-cccccc'' 250], stocked 1)"
    using images_two [of 1] by (simp add: numeral_2_eq_2)
  have vid: "api_resources limited_store (list_query ''video'' (QStr ''2'')) (stocked (Suc 0)) =
             (Inr [sample ''video'' ''wedding-memories/2-bbbbbb'' 5000,
                   sample ''video'' ''wedding-memories/5-eeeeee'' 9000], stocked 0)"
    by (rule videos_two)
  have two: "cap_of (QStr ''2'') = 2"
    using cap_of_show_nat [of 2] by (simp add: show_two)
  note t = files_queries_capped [OF w, of limited_store "stocked 2"]
  from t have
    "recorded (files_handler (recording limited_store) ?req (stocked 2, [])) =
       (case api_resources limited_store (list_query ''image'' (max_results_of ?req)) (stocked 2) of
          (Inl err, st1) \<Rightarrow> (st1, [Api_resources (list_query ''image'' (max_results_of ?req))])
        | (Inr images, st1) \<Rightarrow>
            (snd (api_resources limited_store (list_query ''video'' (max_results_of ?req)) st1),
             [Api_resources (list_query ''image'' (max_results_of ?req)),
              Api_resources (list_query ''video'' (max_results_of ?req))]))"
    by blast
  then have c:
    "recorded (files_handler (recording limited_store) ?req (stocked 2, [])) =
       (stocked 0,
        [Api_resources (list_query ''image'' (QStr ''2'')),
         Api_resources (list_query ''video'' (QStr ''2''))])"
    by (simp add: img vid)
  from t have cap:
    "\<forall>images st1 videos st2.
       api_resources limited_store (list_query ''image'' (max_results_of ?req)) (stocked 2) =
         (Inr images, st1)
     \<and> api_resources limited_store (list_query ''video'' (max_results_of ?req)) st1 =
         (Inr videos, st2)
     \<and> length images \<le> cap_of (max_results (list_query ''image'' (max_results_of ?req)))
     \<and> length videos \<le> cap_of (max_results (list_query ''video'' (max_results_of ?req)))
     \<longrightarrow> files_of (response_of (files_handler limited_store ?req (stocked 2))) =
           map to_file (images @ videos)
       \<and> length (files_of (response_of (files_handler limited_store ?req (stocked 2)))) \<le> 2 * 2"
    by blast
  have "length (files_of (response_of (files_handler limited_store ?req (stocked 2)))) \<le> 2 * 2"
    using cap [rule_format, of _ "stocked (Suc 0)" _ "stocked 0"] img vid two
    by (simp add: list_query_def)
  with w c show ?thesis by blast
qed

text \<open>
  C4 as stated has the handler issue two listing queries for every request and bounds the
  list by \<open>2 * N\<close>. When the store rejects the image query, that query is the only one to
  reach it. And the bound is the store's doing, not the handler's: with a store that
  returns every match, a request with \<open>max_results=1\<close> is answered with five files.
\<close>

theorem files_single_query_counterexample:
  "recorded (files_handler (recording limited_store) \<lparr>query_max_results = Some ''2''\<rparr>
       (stocked 0, [])) =
     (stocked 0, [Api_resources (list_query ''image'' (QStr ''2''))])
   \<and> with_max_results 1 \<lparr>query_max_results = Some ''1''\<rparr>
   \<and> length (files_of (response_of (files_handler uncapped_store
         \<lparr>query_max_results = Some ''1''\<rparr> (stocked 5)))) = 5
   \<and> \<not> 5 \<le> 2 * (1::nat)"
proof -
  have img: "api_resources uncapped_store
               (list_query ''image'' (max_results_of \<lparr>query_max_results = Some ''1''\<rparr>)) (stocked 5) =
             (Inr [sample ''image'' ''wedding-memories/1-aaaaaa'' 100,
                   sample ''image'' ''wedding-memories/3-cccccc'' 250,
                   sample ''image'' ''wedding-memories/4-dddddd'' 75], stocked 4)"
    using spend_stocked [of 4]
    by (simp add: uncapped_store_def list_query_def library_def sample_def)
  have vid: "api_resources uncapped_store
               (list_query ''video'' (max_results_of \<lparr>query_max_results = Some ''1''\<rparr>)) (stocked 4) =
             (Inr [sample ''video'' ''wedding-memories/2-bbbbbb'' 5000,
                   sample ''video'' ''wedding-memories/5-eeeeee'' 9000], stocked 3)"
    using spend_stocked [of 3]
    by (simp add: uncapped_store_def list_query_def library_def sample_def)
  have one: "with_max_results 1 \<lparr>query_max_results = Some ''1''\<rparr>"
    by (simp add: with_max_results_def show_nat.simps digit_char_def)
  have single:
    "recorded (files_handler (recording limited_store) \<lparr>query_max_results = Some ''2''\<rparr>
       (stocked 0, [])) =
     (stocked 0, [Api_resources (list_query ''image'' (QStr ''2''))])"
    by (simp add: files_handler_recorded limited_store_rejects)
  have five: "length (files_of (response_of (files_handler uncapped_store
         \<lparr>query_max_results = Some ''1''\<rparr> (stocked 5)))) = 5"
    by (simp add: files_handler_ok [OF img vid] response_of_def field_def files_of_def)
  from single one five show ?thesis by simp
qed

subsection \<open>Listing: a failed query fails the request\<close>

text \<open>
  C5. The catch block answers a rejected listing query with status 500 and the body
  \<open>{ error: err.message }\<close>, and never with a partial list. The Admin API rejects with a
  nested error, which has no \<open>message\<close> of its own: in the request below the image query
  resolves, the video query is rejected for a used-up quota, and the body of the 500
  response is the empty object, without the \<open>error\<close> field that every failure response
  is specified to have.
\<close>

theorem files_failure_without_error_field:
  "fst (api_resources limited_store (list_query ''image'' (QNum 10)) (stocked 1)) =
     Inr [sample ''image'' ''wedding-memories/1-aaaaaa'' 100,
          sample ''image'' ''wedding-memories/3-cccccc'' 250,
          sample ''image'' ''wedding-memories/4-dddddd'' 75]
   \<and> fst (api_resources limited_store (list_query ''video'' (QNum 10)) (stocked 0)) =
     Inl (Api_error ''Rate limit exceeded'' 420)
   \<and> response_of (files_handler limited_store \<lparr>query_max_results = None\<rparr> (stocked 1)) =
     \<lparr>status = 500, body = []\<rparr>
   \<and> field ''error'' (response_of (files_handler limited_store
        \<lparr>query_max_results = None\<rparr> (stocked 1))) = None"
proof -
  have img: "api_resources limited_store
               (list_query ''image'' (max_results_of \<lparr>query_max_results = None\<rparr>)) (stocked 1) =
             (Inr [sample ''image'' ''wedding-memories/1-aaaaaa'' 100,
                   sample ''image'' ''wedding-memories/3-cccccc'' 250,
                   sample ''image'' ''wedding-memories/4-dddddd'' 75], stocked 0)"
    using images_default [of 0] by simp
  have vid: "api_resources limited_store
               (list_query ''video'' (max_results_of \<lparr>query_max_results = None\<rparr>)) (stocked 0) =
             (Inl (Api_error ''Rate limit exceeded'' 420), stocked 0)"
    by (simp add: limited_store_rejects api_rate_limited_def)
  have out: "files_handler limited_store \<lparr>query_max_results = None\<rparr> (stocked 1) =
               (list_failed (Api_error ''Rate limit exceeded'' 420),
                [Api_resources (list_query ''image'' (max_results_of \<lparr>query_max_results = None\<rparr>)),
                 Api_resources (list_query ''video'' (max_results_of \<lparr>query_max_results = None\<rparr>))],
                stocked 0)"
    by (rule files_handler_video_failed [OF img vid])
  have i: "fst (api_resources limited_store (list_query ''image'' (QNum 10)) (stocked 1)) =
     Inr [sample ''image'' ''wedding-memories/1-aaaaaa'' 100,
          sample ''image'' ''wedding-memories/3-cccccc'' 250,
          sample ''image'' ''wedding-memories/4-dddddd'' 75]"
    using img by simp
  have v: "fst (api_resources limited_store (list_query ''video'' (QNum 10)) (stocked 0)) =
     Inl (Api_error ''Rate limit exceeded'' 420)"
    using vid by simp
  show ?thesis
    unfolding out using i v
    by (simp add: response_of_def field_def list_failed_body message_of_def)
qed

subsection \<open>Upload without a file\<close>

text \<open>
  C6. A POST /upload request without a file part is answered with status 400 and the
  non-empty error text "No file uploaded"; the handler issues no call to the store and
  leaves the store's state as it was.
\<close>

theorem upload_without_file_rejected:
  assumes "req_file req = None"
  shows "response_of (upload_handler cl e req st) =
           \<lparr>status = 400, body = [(''error'', Str ''No file uploaded'')]\<rparr>
       \<and> field ''error'' (response_of (upload_handler cl e req st)) = Some (Str ''No file uploaded'')
       \<and> ''No file uploaded'' \<noteq> []
       \<and> calls_of (upload_handler cl e req st) = []
       \<and> snd (snd (upload_handler cl e req st)) = st"
  using assms
  by (simp add: upload_handler_no_file response_of_def calls_of_def field_def)

theorem upload_without_file_rejected_witness:
  "req_file \<lparr>req_file = None\<rparr> = None
   \<and> response_of (upload_handler limited_store clock \<lparr>req_file = None\<rparr> (stocked 3)) =
         \<lparr>status = 400, body = [(''error'', Str ''No file uploaded'')]\<rparr>
   \<and> calls_of (upload_handler limited_store clock \<lparr>req_file = None\<rparr> (stocked 3)) = []"
  using upload_without_file_rejected [of "\<lparr>req_file = None\<rparr>" limited_store clock "stocked 3"]
  by simp

subsection \<open>Failures of the store are passed through\<close>

text \<open>
  C7. Both catch blocks answer with status 500 and put \<open>err.message\<close> into the body, which
  passes on the message of a rejected upload or destroy call. The kind lookup is a call of
  the Admin API, whose rejection keeps the store's message one level down: in the request
  below the store rejects the lookup with "Resource not found", and the 500 response has
  the fixed \<open>error\<close> text and no \<open>details\<close>, so the store's message is lost.
\<close>

theorem delete_lookup_failure_loses_message:
  "fst (api_resource limited_store ''wedding-memories/9-zzzzzz'' (stocked 5)) =
     Inl (Api_error ''Resource not found - wedding-memories/9-zzzzzz'' 404)
   \<and> store_message (Api_error ''Resource not found - wedding-memories/9-zzzzzz'' 404) =
     ''Resource not found - wedding-memories/9-zzzzzz''
   \<and> response_of (delete_handler limited_store
        \<lparr>cloudinaryId = ''wedding-memories/9-zzzzzz''\<rparr> (stocked 5)) =
     \<lparr>status = 500, body = [(''error'', Str ''Failed to delete file from Cloudinary'')]\<rparr>
   \<and> field ''details'' (response_of (delete_handler limited_store
        \<lparr>cloudinaryId = ''wedding-memories/9-zzzzzz''\<rparr> (stocked 5))) = None"
proof -
  have missing: "api_resource limited_store
                   (cloudinaryId \<lparr>cloudinaryId = ''wedding-memories/9-zzzzzz''\<rparr>) (stocked 5) =
                 (Inl (Api_error ''Resource not found - wedding-memories/9-zzzzzz'' 404), stocked 4)"
    using lookup_missing [of 4] by simp
  show ?thesis
    using missing
    by (simp add: delete_handler_lookup_failed [OF missing] response_of_def field_def
        delete_failed_body message_of_def store_message_def)
qed

subsection \<open>The CORS gate\<close>

text \<open>
  C8, as amended. The allow-list is the four fixed origins. A request whose Origin header
  is present, not empty and not on the list is turned away by the gate: the application
  yields the CORS error, issues no store call and leaves the store untouched, whatever the
  route. A request without an Origin header passes the gate and is answered by its route.
\<close>

theorem cors_gate:
  "set allowedOrigins =
     {''https://jmandmj.vercel.app'', ''https://media-uploader-backend.vercel.app'',
      ''http://localhost:3001'', ''http://localhost:5173''}
   \<and> (origin rq = Some orig \<and> orig \<noteq> [] \<and> orig \<notin> set allowedOrigins
      \<longrightarrow> cors_origin (origin rq) = Inl (Error (''Not allowed by CORS: '' @ orig))
        \<and> app cl e rq st = (Inl (Error (''Not allowed by CORS: '' @ orig)), [], st))
   \<and> (origin rq = None
      \<longrightarrow> cors_origin (origin rq) = Inr True
        \<and> app cl e rq st =
            (Inr (response_of (dispatch cl e (route rq) st)),
             calls_of (dispatch cl e (route rq) st),
             snd (snd (dispatch cl e (route rq) st))))"
  by (auto simp: allowedOrigins_def cors_origin_def app_def response_of_def calls_of_def
      split: prod.splits)

theorem cors_gate_witness:
  "app limited_store clock
       \<lparr>origin = Some ''https://evil.example'', route = Delete \<lparr>cloudinaryId = ''wedding-memories/2-bbbbbb''\<rparr>\<rparr>
       (stocked 5) =
     (Inl (Error ''Not allowed by CORS: https://evil.example''), [], stocked 5)
   \<and> app limited_store clock \<lparr>origin = None, route = Health\<rparr> (stocked 5) =
     (Inr health, [], stocked 5)"
proof -
  let ?bad = "\<lparr>origin = Some ''https://evil.example'',
               route = Delete \<lparr>cloudinaryId = ''wedding-memories/2-bbbbbb''\<rparr>\<rparr>"
  let ?none = "\<lparr>origin = None, route = Health\<rparr>"
  have o: "origin ?bad = Some ''https://evil.example'' \<and> ''https://evil.example'' \<noteq> []
           \<and> ''https://evil.example'' \<notin> set allowedOrigins"
    by (simp add: allowedOrigins_def)
  have "app limited_store clock ?bad (stocked 5) =
          (Inl (Error (''Not allowed by CORS: '' @ ''https://evil.example'')), [], stocked 5)"
    using o cors_gate [of ?bad "''https://evil.example''" limited_store clock "stocked 5"]
    by blast
  moreover have n: "origin ?none = None" by simp
  have "app limited_store clock ?none (stocked 5) =
          (Inr (response_of (dispatch limited_store clock (route ?none) (stocked 5))),
           calls_of (dispatch limited_store clock (route ?none) (stocked 5)),
           snd (snd (dispatch limited_store clock (route ?none) (stocked 5))))"
    using n cors_gate [of ?none _ limited_store clock "stocked 5"]
    by blast
  ultimately show ?thesis
    by (simp add: dispatch_def response_of_def calls_of_def)
qed

text \<open>
  C8 as stated turns away every present Origin outside the allow-list. The empty Origin
  value is outside the list, yet \<open>!origin\<close> holds for it: the request passes the gate and
  reaches the delete handler, which performs the deletion.
\<close>

theorem empty_origin_passes_counterexample:
  "origin \<lparr>origin = Some '''', route = Delete \<lparr>cloudinaryId = ''wedding-memories/2-bbbbbb''\<rparr>\<rparr>
     = Some ''''
   \<and> '''' \<notin> set allowedOrigins
   \<and> fst (app limited_store clock
        \<lparr>origin = Some '''', route = Delete \<lparr>cloudinaryId = ''wedding-memories/2-bbbbbb''\<rparr>\<rparr>
        (stocked 5)) =
      Inr \<lparr>status = 200,
            body = [(''message'', Str ''File deleted successfully from Cloudinary'')]\<rparr>
   \<and> calls_of (app limited_store clock
        \<lparr>origin = Some '''', route = Delete \<lparr>cloudinaryId = ''wedding-memories/2-bbbbbb''\<rparr>\<rparr>
        (stocked 5)) =
      [Api_resource ''wedding-memories/2-bbbbbb'',
       Uploader_destroy ''wedding-memories/2-bbbbbb'' ''video'']"
proof -
  have found: "api_resource limited_store
                 (cloudinaryId \<lparr>cloudinaryId = ''wedding-memories/2-bbbbbb''\<rparr>) (stocked 5) =
               (Inr (sample ''video'' ''wedding-memories/2-bbbbbb'' 5000), stocked 4)"
    using lookup_video [of 4] by simp
  obtain u st2 where destroy:
    "uploader_destroy limited_store
       (cloudinaryId \<lparr>cloudinaryId = ''wedding-memories/2-bbbbbb''\<rparr>)
       (resource_type (sample ''video'' ''wedding-memories/2-bbbbbb'' 5000)) (stocked 4) =
     (Inr u, st2)"
    by (simp add: limited_store_def)
  show ?thesis
    by (simp add: app_def cors_origin_def dispatch_def allowedOrigins_def calls_of_def
        delete_handler_ok [OF found destroy])
      (simp add: sample_def)
qed

subsection \<open>An uploaded identifier is the key of a delete\<close>




subsection \<open>Listing: images before videos\<close>

text \<open>
  C10. When both listing queries resolve, the \<open>files\<close> array is the projection of the
  image results, in the store's order, followed by the projection of the video results, in
  the store's order.
\<close>

theorem files_images_before_videos:
  assumes "api_resources cl (list_query ''image'' (max_results_of req)) st = (Inr images, st1)"
      and "api_resources cl (list_query ''video'' (max_results_of req)) st1 = (Inr videos, st2)"
  shows "field ''files'' (response_of (files_handler cl req st)) =
           Some (Files (map to_file images @ map to_file videos))"
  by (simp add: files_handler_ok [OF assms] response_of_def field_def)

theorem files_images_before_videos_witness:
  "field ''files'' (response_of (files_handler limited_store
       \<lparr>query_max_results = Some ''2''\<rparr> (stocked 2))) =
     Some (Files
       [to_file (sample ''image'' ''wedding-memories/1-aaaaaa'' 100),
        to_file (sample ''image'' ''wedding-memories/3-cccccc'' 250),
        to_file (sample ''video'' ''wedding-memories/2-bbbbbb'' 5000),
        to_file (sample ''video'' ''wedding-memories/5-eeeeee'' 9000)])"
proof -
  have img: "api_resources limited_store
               (list_query ''image'' (max_results_of \<lparr>query_max_results = Some ''2''\<rparr>)) (stocked 2) =
             (Inr [sample ''image'' ''wedding-memories/1-aaaaaa'' 100,
                   sample ''image'' ''wedding-memories/3-cccccc'' 250], stocked 1)"
    using images_two [of 1] by (simp add: numeral_2_eq_2)
  have vid: "api_resources limited_store
               (list_query ''video'' (max_results_of \<lparr>query_max_results = Some ''2''\<rparr>)) (stocked 1) =
             (Inr [sample ''video'' ''wedding-memories/2-bbbbbb'' 5000,
                   sample ''video'' ''wedding-memories/5-eeeeee'' 9000], stocked 0)"
    using videos_two [of 0] by simp
  from files_images_before_videos [OF img vid] show ?thesis by simp
qed

end
